theory Spec2Isabelle
  imports Main "HOL-Library.Word"
begin

section \<open>Python values\<close>

text \<open>
  A Python \<^verbatim>\<open>str\<close> is a sequence of Unicode code points, so it is modelled as a list of
  code points (natural numbers), not as a list of bytes. String literals of the source are
  ASCII and are written as HOL string literals, converted by \<open>str\<close>.
\<close>

type_synonym codepoint = nat
type_synonym pystr = "codepoint list"

definition str :: "string \<Rightarrow> pystr" where
  "str s = map of_char s"

text \<open>
  The values that flow through the tool: what \<^verbatim>\<open>response.json()\<close> can decode, the
  payload dictionary and the error dictionaries. A \<^verbatim>\<open>dict\<close> keeps its insertion order
  and all keys that occur are strings, so it is an association list. A float is the bit
  pattern of its IEEE double.
\<close>

datatype pyval =
    PyNone
  | PyBool bool
  | PyInt int
  | PyFloat "64 word"
  | PyStr pystr
  | PyList "pyval list"
  | PyDict "(pystr \<times> pyval) list"

text \<open>An exception, as far as the tool looks at it: the text of \<^verbatim>\<open>str(e)\<close>.\<close>

datatype exn = Exception pystr

fun message :: "exn \<Rightarrow> pystr" where
  "message (Exception m) = m"

subsection \<open>The string methods the tool calls\<close>

text \<open>
  \<^verbatim>\<open>str.upper()\<close> maps every code point through the full Unicode upper-case mapping, which
  may give several code points. On ASCII it maps \<^verbatim>\<open>a..z\<close> to \<^verbatim>\<open>A..Z\<close> and nothing else;
  the mapping of the code points from 128 on is the parameter \<open>U\<close>.
\<close>

definition upper_char :: "(codepoint \<Rightarrow> pystr) \<Rightarrow> codepoint \<Rightarrow> pystr" where
  "upper_char U c =
     (if c < 128 then [if 97 \<le> c \<and> c \<le> 122 then c - 32 else c] else U c)"

definition upper :: "(codepoint \<Rightarrow> pystr) \<Rightarrow> pystr \<Rightarrow> pystr" where
  "upper U s = concat (map (upper_char U) s)"

text \<open>\<^verbatim>\<open>s.replace(old, new)\<close> for one-character \<^verbatim>\<open>old\<close> and \<^verbatim>\<open>new\<close>.\<close>

definition replace :: "codepoint \<Rightarrow> codepoint \<Rightarrow> pystr \<Rightarrow> pystr" where
  "replace old new s = map (\<lambda>c. if c = old then new else c) s"

text \<open>The code points that \<^verbatim>\<open>str.isspace()\<close> accepts and \<^verbatim>\<open>str.strip()\<close> removes.\<close>

definition isspace :: "codepoint \<Rightarrow> bool" where
  "isspace c \<longleftrightarrow>
     (9 \<le> c \<and> c \<le> 13) \<or> (28 \<le> c \<and> c \<le> 32) \<or> c = 133 \<or> c = 160 \<or> c = 5760 \<or>
     (8192 \<le> c \<and> c \<le> 8202) \<or> c = 8232 \<or> c = 8233 \<or> c = 8239 \<or> c = 8287 \<or> c = 12288"

definition lstrip :: "pystr \<Rightarrow> pystr" where
  "lstrip s = dropWhile isspace s"

definition rstrip :: "pystr \<Rightarrow> pystr" where
  "rstrip s = rev (dropWhile isspace (rev s))"

definition strip :: "pystr \<Rightarrow> pystr" where
  "strip s = rstrip (lstrip s)"

text \<open>\<^verbatim>\<open>sep.join(xs)\<close>.\<close>

fun join :: "'a list \<Rightarrow> 'a list list \<Rightarrow> 'a list" where
  "join sep [] = []"
| "join sep [x] = x"
| "join sep (x # y # ys) = x @ sep @ join sep (y # ys)"

subsection \<open>Formatted string literals\<close>

text \<open>
  An f-string is read left to right: \<^verbatim>\<open>{{\<close> and \<^verbatim>\<open>}}\<close> stand for one brace, \<^verbatim>\<open>{expr}\<close> is a
  replacement field, a single \<^verbatim>\<open>}\<close> or an unclosed or empty field is a syntax error. Only
  the fields the source uses are covered: an expression without conversion, format
  specification or nested braces.
\<close>

datatype piece = Chr codepoint | Expr string

datatype fstate = Plain | Opened | Closed | Field string

fun fparse :: "fstate \<Rightarrow> string \<Rightarrow> piece list option" where
  "fparse Plain [] = Some []"
| "fparse Opened [] = None"
| "fparse Closed [] = None"
| "fparse (Field e) [] = None"
| "fparse Plain (c # cs) =
     (if c = CHR ''{'' then fparse Opened cs
      else if c = CHR ''}'' then fparse Closed cs
      else map_option ((#) (Chr (of_char c))) (fparse Plain cs))"
| "fparse Opened (c # cs) =
     (if c = CHR ''{'' then map_option ((#) (Chr 123)) (fparse Plain cs)
      else if c = CHR ''}'' \<or> c = CHR ''!'' \<or> c = CHR '':'' then None
      else fparse (Field [c]) cs)"
| "fparse Closed (c # cs) =
     (if c = CHR ''}'' then map_option ((#) (Chr 125)) (fparse Plain cs) else None)"
| "fparse (Field e) (c # cs) =
     (if c = CHR ''}'' then map_option ((#) (Expr e)) (fparse Plain cs)
      else if c = CHR ''{'' \<or> c = CHR ''!'' \<or> c = CHR '':'' then None
      else fparse (Field (e @ [c])) cs)"

fun replacement_fields :: "piece list \<Rightarrow> string list" where
  "replacement_fields [] = []"
| "replacement_fields (Chr c # ps) = replacement_fields ps"
| "replacement_fields (Expr e # ps) = e # replacement_fields ps"

text \<open>
  Rendering: every field is replaced by the text of its value, taken from the values
  \<open>env\<close> of the expressions in scope.
\<close>

fun frender :: "(string \<times> pystr) list \<Rightarrow> piece list \<Rightarrow> exn + pystr" where
  "frender env [] = Inr []"
| "frender env (Chr c # ps) = map_sum id ((#) c) (frender env ps)"
| "frender env (Expr e # ps) =
     (case map_of env e of
        None \<Rightarrow> Inl (Exception (str ''NameError''))
      | Some v \<Rightarrow> map_sum id ((@) v) (frender env ps))"

definition fstring :: "(string \<times> pystr) list \<Rightarrow> string \<Rightarrow> exn + pystr" where
  "fstring env s =
     (case fparse Plain s of
        None \<Rightarrow> Inl (Exception (str ''SyntaxError''))
      | Some ps \<Rightarrow> frender env ps)"

text \<open>The replacement fields of an f-string, in order; \<open>None\<close> for a syntax error.\<close>

definition fstring_fields :: "string \<Rightarrow> string list option" where
  "fstring_fields s = map_option replacement_fields (fparse Plain s)"

section \<open>The HTTP client\<close>

text \<open>
  What \<^verbatim>\<open>httpx.post\<close> is called with, and what the tool reads of a response: the status
  code, the body text, the text of the error that \<^verbatim>\<open>raise_for_status\<close> raises for it, and
  what \<^verbatim>\<open>json()\<close> does (the decoded value, or the error it raises).
\<close>

record request =
  url :: pystr
  headers :: "(pystr \<times> pystr) list"
  json :: pyval
  timeout :: int

record response =
  status_code :: int
  text' :: pystr
  status_message :: pystr
  decoded :: "exn + pyval"

text \<open>\<^verbatim>\<open>raise_for_status\<close> returns for a 2xx status and raises for every other one.\<close>

definition raise_for_status :: "response \<Rightarrow> exn + unit" where
  "raise_for_status r =
     (if 200 \<le> status_code r \<and> status_code r \<le> 299 then Inr ()
      else Inl (Exception (status_message r)))"

section \<open>agent.py\<close>

definition get_pandora_access_token :: "exn + pystr" where
  "get_pandora_access_token = Inr (str ''<replace with test token>'')"

definition CONTENT_TYPE_MAP :: "(pystr \<times> pystr) list" where
  "CONTENT_TYPE_MAP =
     [(str ''ARTIST'', str ''AR''),
      (str ''STATION'', str ''SF''),
      (str ''ALBUM'', str ''AL''),
      (str ''TRACK'', str ''TR''),
      (str ''PODCAST'', str ''PC'')]"

text \<open>
  The f-string that builds the query document, line by line as the source has it (escapes
  resolved); the literal opens with a line break and ends with the indentation of its
  closing quotes.
\<close>

definition graphql_query_template :: string where
  \<open>graphql_query_template = join [CHR 0x0A]
     ['''',
      ''        {{'',
      ''            search(types: [{pandora_type_id}], query: "{query}", pagination: {{limit: 20}}) {{'',
      ''                items {{'',
      ''                    id'',
      ''                    ... on Station {{'',
      ''                        name'',
      ''                        art {{'',
      ''                            url(size: WIDTH_90)'',
      ''                        }}'',
      ''                        description'',
      ''                    }}'',
      ''                    ... on StationFactory {{'',
      ''                        name'',
      ''                        art {{'',
      ''                            url(size: WIDTH_90)'',
      ''                        }}'',
      ''                        exampleArtists {{ name }}'',
      ''                        description'',
      ''                    }}'',
      ''                    ... on Track {{'',
      ''                        name'',
      ''                        artist {{ name }}'',
      ''                        album {{ name }}'',
      ''                        url'',
      ''                    }}'',
      ''                    ... on Podcast {{'',
      ''                        name'',
      ''                        publisherName'',
      ''                        url'',
      ''                    }}'',
      ''                    ... on Album {{'',
      ''                        name'',
      ''                        artist {{ name }}'',
      ''                        releaseDate'',
      ''                        tracks {{ name }}'',
      ''                        trackCount'',
      ''                        url'',
      ''                    }}'',
      ''                    ... on Artist {{'',
      ''                        name'',
      ''                        sortableName'',
      ''                        url'',
      ''                    }}'',
      ''                }}'',
      ''            }}'',
      ''        }}'',
      ''    '']\<close>

definition graphql_query :: "pystr \<Rightarrow> pystr \<Rightarrow> exn + pystr" where
  "graphql_query pandora_type_id query =
     fstring [(''pandora_type_id'', pandora_type_id), (''query'', query)]
       graphql_query_template"

definition data :: "pystr \<Rightarrow> pyval" where
  "data gq =
     PyDict
       [(str ''operationName'', PyNone),
        (str ''variables'', PyDict []),
        (str ''query'', PyStr (strip (replace 10 32 gq)))]"

definition PANDORA_URL :: pystr where
  "PANDORA_URL = str ''https://ce.pandora.com/api/v1/graphql/graphql''"

text \<open>
  The call \<^verbatim>\<open>httpx.post(...)\<close>: the network \<open>post\<close> answers the request, and the call is
  recorded at the end of the calls made so far. Nothing else adds to that record.
\<close>

definition httpx_post ::
  "(request \<Rightarrow> exn + response) \<Rightarrow> request \<Rightarrow> request list
     \<Rightarrow> (exn + response) \<times> request list" where
  "httpx_post post req calls = (post req, calls @ [req])"

text \<open>
  The \<^verbatim>\<open>try\<close> block. Besides its outcome it gives the local variable \<^verbatim>\<open>response\<close>, bound
  only once \<^verbatim>\<open>httpx.post\<close> has returned, which the handler asks \<^verbatim>\<open>locals()\<close> about, and
  the calls made.
\<close>

definition try_block ::
  "(request \<Rightarrow> exn + response) \<Rightarrow> request \<Rightarrow> request list
     \<Rightarrow> ((exn + pyval) \<times> response option) \<times> request list" where
  "try_block post req calls =
     (case httpx_post post req calls of
        (Inl e, calls') \<Rightarrow> ((Inl e, None), calls')
      | (Inr r, calls') \<Rightarrow>
          (case raise_for_status r of
             Inl e \<Rightarrow> ((Inl e, Some r), calls')
           | Inr _ \<Rightarrow> ((decoded r, Some r), calls')))"

definition except_block :: "exn \<Rightarrow> response option \<Rightarrow> exn + pyval" where
  "except_block e local_response =
     (case fstring [(''e'', message e)] ''Pandora API call failed: {e}'' of
        Inl x \<Rightarrow> Inl x
      | Inr m \<Rightarrow>
          Inr (PyDict
            [(str ''error'', PyStr m),
             (str ''response_text'',
                (case local_response of None \<Rightarrow> PyNone | Some r \<Rightarrow> PyStr (text' r)))]))"

definition invalid_content_type :: "pystr \<Rightarrow> exn + pyval" where
  "invalid_content_type content_type =
     (case fstring [(''content_type'', content_type)] ''Invalid content_type: {content_type}.'' of
        Inl x \<Rightarrow> Inl x
      | Inr m \<Rightarrow> Inr (PyDict [(str ''error'', PyStr m)]))"

text \<open>
  The tool. The result is what the call returns (\<open>Inr\<close>) or the exception that leaves it
  (\<open>Inl\<close>), together with the calls of \<^verbatim>\<open>httpx.post\<close> it has made, in order, starting from
  none. \<open>post\<close> is the network: what answers a request.
\<close>

definition pandora_search_catalog ::
  "(codepoint \<Rightarrow> pystr) \<Rightarrow> (request \<Rightarrow> exn + response) \<Rightarrow> pystr \<Rightarrow> pystr
     \<Rightarrow> (exn + pyval) \<times> request list" where
  "pandora_search_catalog U post query content_type =
     (case map_of CONTENT_TYPE_MAP (upper U content_type) of
        None \<Rightarrow> (invalid_content_type content_type, [])
      | Some pandora_type_id \<Rightarrow>
          if pandora_type_id = [] then (invalid_content_type content_type, [])
          else
            (case graphql_query pandora_type_id query of
               Inl x \<Rightarrow> (Inl x, [])
             | Inr gq \<Rightarrow>
                 (case get_pandora_access_token of
                    Inl x \<Rightarrow> (Inl x, [])
                  | Inr token \<Rightarrow>
                      (case fstring [(''get_pandora_access_token()'', token)]
                              ''Bearer {get_pandora_access_token()}'' of
                         Inl x \<Rightarrow> (Inl x, [])
                       | Inr bearer \<Rightarrow>
                           (let req = \<lparr>url = PANDORA_URL,
                                       headers = [(str ''Authorization'', bearer),
                                                  (str ''Content-Type'', str ''application/json'')],
                                       json = data gq,
                                       timeout = 10\<rparr>
                            in (case try_block post req [] of
                                  ((Inr v, _), calls) \<Rightarrow> (Inr v, calls)
                                | ((Inl e, local_response), calls) \<Rightarrow>
                                    (except_block e local_response, calls)))))))"

section \<open>The query document\<close>

text \<open>
  The lines of the document: the line of the search call, with the type code and the
  search term in it, and the constant lines of the field selection below it.
\<close>

definition search_line :: "pystr \<Rightarrow> pystr \<Rightarrow> pystr" where
  \<open>search_line t q =
     str ''            search(types: ['' @ t @ str ''], query: "'' @ q @
     str ''", pagination: {limit: 20}) {''\<close>

definition selection_lines :: "pystr list" where
  \<open>selection_lines = map str
     [''                items {'',
      ''                    id'',
      ''                    ... on Station {'',
      ''                        name'',
      ''                        art {'',
      ''                            url(size: WIDTH_90)'',
      ''                        }'',
      ''                        description'',
      ''                    }'',
      ''                    ... on StationFactory {'',
      ''                        name'',
      ''                        art {'',
      ''                            url(size: WIDTH_90)'',
      ''                        }'',
      ''                        exampleArtists { name }'',
      ''                        description'',
      ''                    }'',
      ''                    ... on Track {'',
      ''                        name'',
      ''                        artist { name }'',
      ''                        album { name }'',
      ''                        url'',
      ''                    }'',
      ''                    ... on Podcast {'',
      ''                        name'',
      ''                        publisherName'',
      ''                        url'',
      ''                    }'',
      ''                    ... on Album {'',
      ''                        name'',
      ''                        artist { name }'',
      ''                        releaseDate'',
      ''                        tracks { name }'',
      ''                        trackCount'',
      ''                        url'',
      ''                    }'',
      ''                    ... on Artist {'',
      ''                        name'',
      ''                        sortableName'',
      ''                        url'',
      ''                    }'',
      ''                }'',
      ''            }'']\<close>

definition document_lines :: "pystr \<Rightarrow> pystr \<Rightarrow> pystr list" where
  \<open>document_lines t q =
     [str '''', str ''        {'', search_line t q] @ selection_lines @
     [str ''        }'', str ''    '']\<close>

text \<open>The flattened document: the lines on one line, without the outer white space.\<close>

definition flat_document :: "pystr \<Rightarrow> pystr \<Rightarrow> pystr" where
  \<open>flat_document t q =
     join [32] ([str ''{'', search_line t q] @ selection_lines @ [str ''        }''])\<close>

text \<open>The query document that a request carries, under the key \<^verbatim>\<open>query\<close> of its body.\<close>

definition document_of :: "request \<Rightarrow> pystr option" where
  "document_of r =
     (case json r of
        PyDict d \<Rightarrow> (case map_of d (str ''query'') of Some (PyStr s) \<Rightarrow> Some s | _ \<Rightarrow> None)
      | _ \<Rightarrow> None)"

subsection \<open>The structure of a document\<close>

text \<open>
  The remote service reads the document by the lexical grammar of GraphQL. The structure of
  a document is what that grammar makes of it with every string value taken as one token,
  whatever its contents: the source characters outside string values and comments, and a
  mark for each string value. \<open>None\<close> says that the lexer rejects the document.

  \<^item> Every character of a document has to be a source character. The editions of the
    grammar differ in that set, so it is the parameter \<open>S\<close>.
  \<^item> A comment runs from a number sign outside a string to the end of the line.
  \<^item> A string value opens with a double quote and runs to the next double quote that no
    backslash escapes. A line feed or a carriage return inside it is an error, and so is
    the end of the document. A backslash is followed by one of the characters
    \<^verbatim>\<open>" \ / b f n r t\<close> or by \<^verbatim>\<open>u\<close> and four hexadecimal digits.
  \<^item> A block string opens with three double quotes and runs to the next three that no
    backslash precedes; line terminators are allowed in it.
\<close>

datatype lexeme = Source codepoint | StringValue

datatype lexstate = Outside | Comment | Inside | Escaped | Block

definition hex_digit :: "codepoint \<Rightarrow> bool" where
  "hex_digit c \<longleftrightarrow> (48 \<le> c \<and> c \<le> 57) \<or> (65 \<le> c \<and> c \<le> 70) \<or> (97 \<le> c \<and> c \<le> 102)"

function scan :: "(codepoint \<Rightarrow> bool) \<Rightarrow> lexstate \<Rightarrow> pystr \<Rightarrow> lexeme list option" where
  "scan S Outside [] = Some []"
| "scan S Comment [] = Some []"
| "scan S Inside [] = None"
| "scan S Escaped [] = None"
| "scan S Block [] = None"
| "scan S Outside (c # cs) =
     (if \<not> S c then None
      else if c = 35 then scan S Comment cs
      else if c = 34 then
        (if take 2 cs = [34, 34] then scan S Block (drop 2 cs)
         else if take 1 cs = [34] then map_option ((#) StringValue) (scan S Outside (drop 1 cs))
         else scan S Inside cs)
      else map_option ((#) (Source c)) (scan S Outside cs))"
| "scan S Comment (c # cs) =
     (if \<not> S c then None
      else if c = 10 \<or> c = 13 then map_option ((#) (Source c)) (scan S Outside cs)
      else scan S Comment cs)"
| "scan S Inside (c # cs) =
     (if \<not> S c \<or> c = 10 \<or> c = 13 then None
      else if c = 34 then map_option ((#) StringValue) (scan S Outside cs)
      else if c = 92 then scan S Escaped cs
      else scan S Inside cs)"
| "scan S Escaped (c # cs) =
     (if c \<in> {34, 92, 47, 98, 102, 110, 114, 116} then scan S Inside cs
      else if c = 117 \<and> length (take 4 cs) = 4 \<and> list_all hex_digit (take 4 cs)
        then scan S Inside (drop 4 cs)
      else None)"
| "scan S Block (c # cs) =
     (if \<not> S c then None
      else if c = 34 \<and> take 2 cs = [34, 34]
        then map_option ((#) StringValue) (scan S Outside (drop 2 cs))
      else if c = 92 \<and> take 3 cs = [34, 34, 34] then scan S Block (drop 3 cs)
      else scan S Block cs)"
  by pat_completeness auto
termination
  by (relation "measure (\<lambda>(S, st, cs). length cs)") auto

text \<open>The structure of the document that a request carries.\<close>

definition document_structure :: "(codepoint \<Rightarrow> bool) \<Rightarrow> request \<Rightarrow> lexeme list option" where
  "document_structure S r =
     (case document_of r of None \<Rightarrow> None | Some d \<Rightarrow> scan S Outside d)"

text \<open>
  The source characters of the October 2021 edition: tab, line feed, carriage return and
  the code points from U+0020 to U+FFFF.
\<close>

definition source_character :: "codepoint \<Rightarrow> bool" where
  "source_character c \<longleftrightarrow> c = 9 \<or> c = 10 \<or> c = 13 \<or> (32 \<le> c \<and> c \<le> 65535)"

section \<open>Notions used in the statements\<close>

text \<open>\<open>s\<close> spells the upper-case label \<open>l\<close> in some mix of upper and lower case.\<close>

definition any_case_of :: "pystr \<Rightarrow> pystr \<Rightarrow> bool" where
  "any_case_of l s \<longleftrightarrow> list_all2 (\<lambda>c u. c = u \<or> c = u + 32) s l"

text \<open>
  The printable ASCII characters other than the double quote, the number sign and the
  backslash.
\<close>

definition plain_ascii :: "codepoint \<Rightarrow> bool" where
  "plain_ascii c \<longleftrightarrow> 32 \<le> c \<and> c \<le> 126 \<and> c \<noteq> 34 \<and> c \<noteq> 35 \<and> c \<noteq> 92"

text \<open>The HTTP call fails: no response, a status outside 2xx, or a body that does not decode.\<close>

definition call_fails :: "(request \<Rightarrow> exn + response) \<Rightarrow> request \<Rightarrow> bool" where
  "call_fails post req \<longleftrightarrow>
     (case post req of
        Inl e \<Rightarrow> True
      | Inr r \<Rightarrow> \<not> (200 \<le> status_code r \<and> status_code r \<le> 299) \<or> isl (decoded r))"

text \<open>
  The request of a search for \<open>q\<close> under the type code \<open>t\<close>: the fixed endpoint, the two
  headers, the envelope around the flattened document, and the timeout.
\<close>

definition request_for :: "pystr \<Rightarrow> pystr \<Rightarrow> request" where
  "request_for t q =
     \<lparr>url = str ''https://ce.pandora.com/api/v1/graphql/graphql'',
      headers = [(str ''Authorization'', str ''Bearer <replace with test token>''),
                 (str ''Content-Type'', str ''application/json'')],
      json = PyDict [(str ''operationName'', PyNone),
                     (str ''variables'', PyDict []),
                     (str ''query'', PyStr (flat_document t (replace 10 32 q)))],
      timeout = 10\<rparr>"

text \<open>The error dictionary of a failed call.\<close>

definition failure_result :: "pystr \<Rightarrow> pyval \<Rightarrow> pyval" where
  "failure_result cause body =
     PyDict [(str ''error'', PyStr (str ''Pandora API call failed: '' @ cause)),
             (str ''response_text'', body)]"

text \<open>
  Concrete surroundings for the examples: a case mapping that leaves every code point from
  128 on as it is, a network that times out, one that answers with a server error, one
  that answers with a page that is no JSON, and one that answers with a search result.
\<close>

definition no_case_mapping :: "codepoint \<Rightarrow> pystr" where
  "no_case_mapping c = [c]"

definition timed_out :: "request \<Rightarrow> exn + response" where
  "timed_out req = Inl (Exception (str ''timed out''))"

definition server_error :: "request \<Rightarrow> exn + response" where
  \<open>server_error req =
     Inr \<lparr>status_code = 500,
          text' = str ''{"message":"server error"}'',
          status_message = str ''Server error 500'',
          decoded = Inr (PyDict [(str ''message'', PyStr (str ''server error''))])\<rparr>\<close>

definition not_json :: "request \<Rightarrow> exn + response" where
  "not_json req =
     Inr \<lparr>status_code = 200,
          text' = str ''<html>down</html>'',
          status_message = str '''',
          decoded = Inl (Exception (str ''Expecting value''))\<rparr>"

definition test_artist :: pyval where
  "test_artist =
     PyDict [(str ''data'', PyDict [(str ''search'', PyDict [(str ''items'',
       PyList [PyDict [(str ''id'', PyStr (str ''1'')),
                       (str ''name'', PyStr (str ''Test Artist''))]])])])]"

definition found_artist :: "request \<Rightarrow> exn + response" where
  \<open>found_artist req =
     Inr \<lparr>status_code = 200,
          text' = str ''{"data":{"search":{"items":[{"id":"1","name":"Test Artist"}]}}}'',
          status_message = str '''',
          decoded = Inr test_artist\<rparr>\<close>

section \<open>Formatted strings, line by line\<close>

lemma fparse_append_Some:
  "fparse st a = Some ps \<Longrightarrow> fparse Plain b = Some qs \<Longrightarrow> fparse st (a @ b) = Some (ps @ qs)"
  by (induction st a arbitrary: ps rule: fparse.induct) (auto split: if_splits)

lemma fparse_append_None:
  "fparse st a = Some ps \<Longrightarrow> fparse Plain b = None \<Longrightarrow> fparse st (a @ b) = None"
  by (induction st a arbitrary: ps rule: fparse.induct) (auto split: if_splits)

lemma frender_append:
  "frender env ps = Inr r \<Longrightarrow> frender env (ps @ qs) = map_sum id ((@) r) (frender env qs)"
  by (induction env ps arbitrary: r rule: frender.induct)
     (auto split: option.splits sum.splits simp: map_sum_def)

lemma fstring_append:
  "fstring env a = Inr r \<Longrightarrow> fstring env (a @ b) = map_sum id ((@) r) (fstring env b)"
  by (cases "fparse Plain b")
     (auto simp: fstring_def fparse_append_Some fparse_append_None frender_append
           split: option.splits)

lemma fstring_newline: "fstring env (CHR 0x0A # b) = map_sum id ((#) 10) (fstring env b)"
  by (cases "fparse Plain b") (auto simp: fstring_def)

lemma fstring_join:
  "list_all2 (\<lambda>l r. fstring env l = Inr r) ls rs \<Longrightarrow>
   fstring env (join [CHR 0x0A] ls) = Inr (join [10] rs)"
proof (induction "[CHR 0x0A]" ls arbitrary: rs rule: join.induct)
  case 1
  then show ?case by (simp add: fstring_def)
next
  case (2 x)
  then show ?case by (auto simp: list_all2_Cons1)
next
  case (3 x y ys)
  from "3.prems" obtain r rs' where rs: "rs = r # rs'" and x: "fstring env x = Inr r"
    and rest: "list_all2 (\<lambda>l r. fstring env l = Inr r) (y # ys) rs'"
    by (auto simp: list_all2_Cons1)
  from rest obtain r' rs'' where rs': "rs' = r' # rs''"
    by (auto simp: list_all2_Cons1)
  from "3.hyps" [OF rest] show ?case
    by (simp add: rs rs' fstring_append [OF x] fstring_newline)
qed

lemma graphql_query_eq:
  "graphql_query t q = Inr (join [10] (document_lines t q))"
  unfolding graphql_query_def graphql_query_template_def
  by (rule fstring_join)
     (simp add: document_lines_def search_line_def selection_lines_def fstring_def str_def)

section \<open>The pieces of the tool\<close>

lemma invalid_content_type_eq:
  "invalid_content_type ct =
     Inr (PyDict [(str ''error'', PyStr (str ''Invalid content_type: '' @ ct @ str ''.''))])"
  by (simp add: invalid_content_type_def fstring_def str_def)

lemma except_block_eq:
  "except_block e lr =
     Inr (PyDict
       [(str ''error'', PyStr (str ''Pandora API call failed: '' @ message e)),
        (str ''response_text'', (case lr of None \<Rightarrow> PyNone | Some r \<Rightarrow> PyStr (text' r)))])"
  by (simp add: except_block_def fstring_def str_def)

lemma bearer_eq:
  "fstring [(''get_pandora_access_token()'', token)] ''Bearer {get_pandora_access_token()}'' =
     Inr (str ''Bearer '' @ token)"
  by (simp add: fstring_def str_def)

lemma join_append:
  "xs \<noteq> [] \<Longrightarrow> ys \<noteq> [] \<Longrightarrow> join sep (xs @ ys) = join sep xs @ sep @ join sep ys"
proof (induction sep xs rule: join.induct)
  case (2 sep x)
  then show ?case by (cases ys) simp_all
qed simp_all

lemma join_frame:
  "join sep (pre @ (x # xs) @ [c]) = join sep (pre @ [x]) @ join sep ([] # xs) @ sep @ c"
proof -
  have "join sep (pre @ (x # xs) @ [c]) = join sep (pre @ [x] @ xs) @ sep @ c"
    using join_append [of "pre @ x # xs" "[c]" sep] by simp
  moreover have "join sep (pre @ [x] @ xs) = join sep (pre @ [x]) @ join sep ([] # xs)"
    using join_append [of "pre @ [x]" xs sep] by (cases xs) simp_all
  ultimately show ?thesis by simp
qed

lemma replace_append: "replace a b (xs @ ys) = replace a b xs @ replace a b ys"
  by (simp add: replace_def)

lemma replace_Nil: "replace a b [] = []"
  by (simp add: replace_def)

lemma replace_Cons: "replace a b (c # cs) = (if c = a then b else c) # replace a b cs"
  by (simp add: replace_def)

lemma replace_join:
  "replace 10 32 (join [10] ls) = join [32] (map (replace 10 32) ls)"
  by (induction "[10::nat]" ls rule: join.induct) (simp_all add: replace_append replace_Cons replace_Nil)

lemma replace_selection_lines: "map (replace 10 32) selection_lines = selection_lines"
  by (simp add: selection_lines_def replace_def str_def)

lemma replace_search_line:
  "replace 10 32 (search_line t q) = search_line (replace 10 32 t) (replace 10 32 q)"
  by (simp add: search_line_def replace_def str_def)

lemma lstrip_open: "lstrip (32 # str ''        {'' @ xs) = str ''{'' @ xs"
  by (simp add: lstrip_def str_def isspace_def)

lemma rstrip_close:
  "rstrip (xs @ 32 # str ''        }'' @ 32 # str ''    '') = xs @ 32 # str ''        }''"
  by (simp add: rstrip_def str_def isspace_def)

lemma flatten_document:
  "strip (replace 10 32 (join [10] (document_lines t q))) =
     flat_document (replace 10 32 t) (replace 10 32 q)"
proof -
  let ?s = "search_line (replace 10 32 t) (replace 10 32 q)"
  let ?rest = "join [32] ([] # selection_lines)"
  have "replace 10 32 (join [10] (document_lines t q)) =
          join [32] ([[], str ''        {''] @ (?s # selection_lines @ [str ''        }'']) @ [str ''    ''])"
    by (simp add: replace_join document_lines_def replace_selection_lines replace_search_line
          replace_Nil replace_Cons str_def)
  also have "\<dots> = (32 # str ''        {'' @ 32 # ?s) @
      join [32] ([] # selection_lines @ [str ''        }'']) @ 32 # str ''    ''"
    by (simp only: join_frame) simp
  also have "join [32] ([] # selection_lines @ [str ''        }'']) = ?rest @ 32 # str ''        }''"
    using join_append [of "[] # selection_lines" "[str ''        }'']" "[32]"] by simp
  finally have "strip (replace 10 32 (join [10] (document_lines t q))) =
      str ''{'' @ 32 # ?s @ ?rest @ 32 # str ''        }''"
    using rstrip_close [of "str ''{'' @ 32 # ?s @ ?rest"]
    by (simp add: strip_def lstrip_open)
  moreover have "flat_document (replace 10 32 t) (replace 10 32 q) =
      join [32] ([str ''{''] @ (?s # selection_lines) @ [str ''        }''])"
    by (simp add: flat_document_def)
  moreover have "\<dots> = str ''{'' @ 32 # ?s @ ?rest @ 32 # str ''        }''"
    by (simp only: join_frame) simp
  ultimately show ?thesis by simp
qed

lemma flat_document_eq:
  "flat_document t q = str ''{'' @ 32 # search_line t q @ join [32] ([] # selection_lines) @ 32 # str ''        }''"
  unfolding flat_document_def
  using join_frame [of "[32]" "[str ''{'']" "search_line t q" selection_lines "str ''        }''"]
  by simp

lemma content_type_map:
  "map_of CONTENT_TYPE_MAP k =
     (if k = str ''ARTIST'' then Some (str ''AR'')
      else if k = str ''STATION'' then Some (str ''SF'')
      else if k = str ''ALBUM'' then Some (str ''AL'')
      else if k = str ''TRACK'' then Some (str ''TR'')
      else if k = str ''PODCAST'' then Some (str ''PC'')
      else None)"
  by (simp add: CONTENT_TYPE_MAP_def)

lemma type_code_plain:
  assumes "map_of CONTENT_TYPE_MAP k = Some t"
  shows "t \<noteq> []" and "replace 10 32 t = t" and "\<forall>c\<in>set t. plain_ascii c"
  using assms
  by (auto simp: content_type_map str_def replace_def plain_ascii_def split: if_splits)

lemma search_valid:
  assumes "map_of CONTENT_TYPE_MAP (upper U content_type) = Some t"
  shows "pandora_search_catalog U post query content_type =
     (case try_block post (request_for t query) [] of
        ((Inr v, lr), calls) \<Rightarrow> (Inr v, calls)
      | ((Inl e, lr), calls) \<Rightarrow> (except_block e lr, calls))"
proof -
  have "\<lparr>url = PANDORA_URL,
         headers = [(str ''Authorization'', str ''Bearer '' @ str ''<replace with test token>''),
                    (str ''Content-Type'', str ''application/json'')],
         json = data (join [10] (document_lines t query)),
         timeout = 10\<rparr> = request_for t query"
    using type_code_plain(2) [OF assms]
    by (simp add: request_for_def PANDORA_URL_def data_def flatten_document str_def)
  with assms type_code_plain(1) [OF assms] show ?thesis
    by (simp add: pandora_search_catalog_def graphql_query_eq get_pandora_access_token_def
          bearer_eq Let_def split: prod.splits sum.splits)
qed

lemma search_invalid:
  assumes "map_of CONTENT_TYPE_MAP (upper U content_type) = None"
  shows "pandora_search_catalog U post query content_type =
     (Inr (PyDict [(str ''error'',
             PyStr (str ''Invalid content_type: '' @ content_type @ str ''.''))]), [])"
  using assms by (simp add: pandora_search_catalog_def invalid_content_type_eq)

lemma document_of_request_for:
  "document_of (request_for t q) = Some (flat_document t (replace 10 32 q))"
  by (simp add: document_of_def request_for_def str_def)

lemma calls_valid:
  "map_of CONTENT_TYPE_MAP (upper U content_type) = Some t \<Longrightarrow>
   snd (pandora_search_catalog U post query content_type) = [request_for t query]"
  by (simp add: search_valid try_block_def httpx_post_def split: prod.splits sum.splits)

lemma result_valid:
  "map_of CONTENT_TYPE_MAP (upper U content_type) = Some t \<Longrightarrow>
   fst (pandora_search_catalog U post query content_type) =
     (case post (request_for t query) of
        Inl e \<Rightarrow> Inr (failure_result (message e) PyNone)
      | Inr r \<Rightarrow>
          if 200 \<le> status_code r \<and> status_code r \<le> 299 then
            (case decoded r of
               Inl e \<Rightarrow> Inr (failure_result (message e) (PyStr (text' r)))
             | Inr v \<Rightarrow> Inr v)
          else Inr (failure_result (status_message r) (PyStr (text' r))))"
  by (simp add: search_valid try_block_def httpx_post_def raise_for_status_def except_block_eq
        failure_result_def split: prod.splits sum.splits)

lemma any_case_of_upper:
  "any_case_of l s \<Longrightarrow> \<forall>u\<in>set l. 65 \<le> u \<and> u \<le> 90 \<Longrightarrow> upper U s = l"
  unfolding any_case_of_def
  by (induction s l rule: list_all2_induct) (auto simp: upper_def upper_char_def)

text \<open>
  C1. When the upper-cased content type is none of the five labels, the tool returns the
  dictionary with the one entry error, whose text quotes the content type as it was given,
  and sends no request.
\<close>

theorem invalid_content_type_result:
  assumes "upper U content_type \<notin>
             {str ''ARTIST'', str ''STATION'', str ''ALBUM'', str ''TRACK'', str ''PODCAST''}"
  shows "pandora_search_catalog U post query content_type =
           (Inr (PyDict [(str ''error'',
                   PyStr (str ''Invalid content_type: '' @ content_type @ str ''.''))]), [])"
  using assms by (intro search_invalid) (simp add: content_type_map)

theorem invalid_content_type_result_witness:
  "upper no_case_mapping (str ''artist '') \<notin>
      {str ''ARTIST'', str ''STATION'', str ''ALBUM'', str ''TRACK'', str ''PODCAST''} \<and>
   pandora_search_catalog no_case_mapping timed_out (str ''rock'') (str ''artist '') =
     (Inr (PyDict [(str ''error'', PyStr (str ''Invalid content_type: artist .''))]), []) \<and>
   pandora_search_catalog no_case_mapping timed_out (str ''rock'') (str ''PLAYLIST'') =
     (Inr (PyDict [(str ''error'', PyStr (str ''Invalid content_type: PLAYLIST.''))]), []) \<and>
   pandora_search_catalog no_case_mapping timed_out (str ''rock'') (str '''') =
     (Inr (PyDict [(str ''error'', PyStr (str ''Invalid content_type: .''))]), [])"
proof -
  have a: "upper no_case_mapping (str ''artist '') \<notin>
      {str ''ARTIST'', str ''STATION'', str ''ALBUM'', str ''TRACK'', str ''PODCAST''}"
    by (simp add: upper_def upper_char_def str_def)
  have b: "upper no_case_mapping (str ''PLAYLIST'') \<notin>
      {str ''ARTIST'', str ''STATION'', str ''ALBUM'', str ''TRACK'', str ''PODCAST''}"
    by (simp add: upper_def upper_char_def str_def)
  have c: "upper no_case_mapping (str '''') \<notin>
      {str ''ARTIST'', str ''STATION'', str ''ALBUM'', str ''TRACK'', str ''PODCAST''}"
    by (simp add: upper_def upper_char_def str_def)
  show ?thesis
    using a invalid_content_type_result [OF a, of timed_out "str ''rock''"]
      invalid_content_type_result [OF b, of timed_out "str ''rock''"]
      invalid_content_type_result [OF c, of timed_out "str ''rock''"]
    by (simp add: str_def)
qed

text \<open>
  C2. A content type that upper-cases to one of the five labels, as every spelling of a
  label in upper and lower case does, is resolved to the documented code of the label:
  the tool makes exactly one call of the network, with the request for that code, and what
  it returns is decided by the answer of the network to that request. No call is made for
  any other content type.
\<close>

theorem content_type_resolution:
  assumes "(label, code) \<in> set [(str ''ARTIST'', str ''AR''), (str ''STATION'', str ''SF''),
             (str ''ALBUM'', str ''AL''), (str ''TRACK'', str ''TR''),
             (str ''PODCAST'', str ''PC'')]"
  shows "(any_case_of label content_type \<longrightarrow> upper U content_type = label) \<and>
         (upper U content_type = label \<longrightarrow>
            snd (pandora_search_catalog U post query content_type) = [request_for code query] \<and>
            document_of (request_for code query) =
              Some (flat_document code (replace 10 32 query)) \<and>
            fst (pandora_search_catalog U post query content_type) =
              (case post (request_for code query) of
                 Inl e \<Rightarrow>
                   Inr (PyDict
                     [(str ''error'', PyStr (str ''Pandora API call failed: '' @ message e)),
                      (str ''response_text'', PyNone)])
               | Inr r \<Rightarrow>
                   if 200 \<le> status_code r \<and> status_code r \<le> 299 then
                     (case decoded r of
                        Inl e \<Rightarrow>
                          Inr (PyDict
                            [(str ''error'',
                                PyStr (str ''Pandora API call failed: '' @ message e)),
                             (str ''response_text'', PyStr (text' r))])
                      | Inr v \<Rightarrow> Inr v)
                   else
                     Inr (PyDict
                       [(str ''error'',
                           PyStr (str ''Pandora API call failed: '' @ status_message r)),
                        (str ''response_text'', PyStr (text' r))]))) \<and>
         (snd (pandora_search_catalog U post query content_type) \<noteq> [] \<longrightarrow>
            upper U content_type \<in>
              {str ''ARTIST'', str ''STATION'', str ''ALBUM'', str ''TRACK'', str ''PODCAST''})"
proof (intro conjI impI)
  assume "any_case_of label content_type"
  moreover from assms have "\<forall>u\<in>set label. 65 \<le> u \<and> u \<le> 90"
    by (auto simp: str_def)
  ultimately show "upper U content_type = label"
    by (rule any_case_of_upper)
next
  assume "upper U content_type = label"
  with assms have "map_of CONTENT_TYPE_MAP (upper U content_type) = Some code"
    by (auto simp: content_type_map str_def)
  then show "snd (pandora_search_catalog U post query content_type) = [request_for code query]"
    by (rule calls_valid)
next
  show "document_of (request_for code query) = Some (flat_document code (replace 10 32 query))"
    by (rule document_of_request_for)
next
  assume "upper U content_type = label"
  with assms have code: "map_of CONTENT_TYPE_MAP (upper U content_type) = Some code"
    by (auto simp: content_type_map str_def)
  show "fst (pandora_search_catalog U post query content_type) =
      (case post (request_for code query) of
         Inl e \<Rightarrow>
           Inr (PyDict
             [(str ''error'', PyStr (str ''Pandora API call failed: '' @ message e)),
              (str ''response_text'', PyNone)])
       | Inr r \<Rightarrow>
           if 200 \<le> status_code r \<and> status_code r \<le> 299 then
             (case decoded r of
                Inl e \<Rightarrow>
                  Inr (PyDict
                    [(str ''error'',
                        PyStr (str ''Pandora API call failed: '' @ message e)),
                     (str ''response_text'', PyStr (text' r))])
              | Inr v \<Rightarrow> Inr v)
           else
             Inr (PyDict
               [(str ''error'',
                   PyStr (str ''Pandora API call failed: '' @ status_message r)),
                (str ''response_text'', PyStr (text' r))]))"
    by (simp add: result_valid [OF code] failure_result_def split: sum.splits)
next
  assume sent: "snd (pandora_search_catalog U post query content_type) \<noteq> []"
  show "upper U content_type \<in>
          {str ''ARTIST'', str ''STATION'', str ''ALBUM'', str ''TRACK'', str ''PODCAST''}"
  proof (rule ccontr)
    assume "\<not> ?thesis"
    then have "map_of CONTENT_TYPE_MAP (upper U content_type) = None"
      by (simp add: content_type_map)
    then show False using sent by (simp add: search_invalid)
  qed
qed

theorem content_type_resolution_witness:
  "any_case_of (str ''PODCAST'') (str ''PodCast'') \<and>
   upper no_case_mapping (str ''PodCast'') = str ''PODCAST'' \<and>
   snd (pandora_search_catalog no_case_mapping timed_out (str ''space podcasts'') (str ''PodCast''))
     = [request_for (str ''PC'') (str ''space podcasts'')] \<and>
   fst (pandora_search_catalog no_case_mapping timed_out (str ''space podcasts'') (str ''PodCast''))
     = Inr (PyDict [(str ''error'', PyStr (str ''Pandora API call failed: timed out'')),
                    (str ''response_text'', PyNone)]) \<and>
   fst (pandora_search_catalog no_case_mapping found_artist (str ''space podcasts'')
          (str ''PodCast''))
     = Inr test_artist"
proof -
  have m: "(str ''PODCAST'', str ''PC'') \<in> set [(str ''ARTIST'', str ''AR''),
      (str ''STATION'', str ''SF''), (str ''ALBUM'', str ''AL''), (str ''TRACK'', str ''TR''),
      (str ''PODCAST'', str ''PC'')]"
    by simp
  have a: "any_case_of (str ''PODCAST'') (str ''PodCast'')"
    by (simp add: any_case_of_def str_def)
  have p: "str ''Pandora API call failed: '' @ str ''timed out'' =
      str ''Pandora API call failed: timed out''"
    by (simp add: str_def)
  from content_type_resolution [OF m, of "str ''PodCast''" no_case_mapping timed_out
      "str ''space podcasts''"]
    content_type_resolution [OF m, of "str ''PodCast''" no_case_mapping found_artist
      "str ''space podcasts''"] a
  show ?thesis by (simp add: timed_out_def found_artist_def p)
qed

lemma valid_label_code:
  assumes "k \<in> {str ''ARTIST'', str ''STATION'', str ''ALBUM'', str ''TRACK'', str ''PODCAST''}"
  obtains t where "map_of CONTENT_TYPE_MAP k = Some t"
  using assms
  by (cases "map_of CONTENT_TYPE_MAP k") (auto simp: content_type_map split: if_splits)

lemma upper_plain: "upper no_case_mapping (str ''ARTIST'') = str ''ARTIST''"
  by (simp add: upper_def upper_char_def str_def)

lemma artist_code: "map_of CONTENT_TYPE_MAP (str ''ARTIST'') = Some (str ''AR'')"
  by (simp add: content_type_map)

text \<open>
  C3. With a valid content type the tool sends one request. When the call to it fails, the
  result is the dictionary with the entries error and response_text: the error is the
  fixed prefix followed by the text of the exception, the response text is the body of the
  response when one arrived (a status outside 2xx, or a body that does not decode) and
  None when none did.
\<close>

theorem api_failure_result:
  assumes "upper U content_type \<in>
             {str ''ARTIST'', str ''STATION'', str ''ALBUM'', str ''TRACK'', str ''PODCAST''}"
  shows "\<exists>req. snd (pandora_search_catalog U post query content_type) = [req] \<and>
           (\<forall>e. post req = Inl e \<longrightarrow>
              fst (pandora_search_catalog U post query content_type) =
                Inr (PyDict [(str ''error'', PyStr (str ''Pandora API call failed: '' @ message e)),
                             (str ''response_text'', PyNone)])) \<and>
           (\<forall>r. post req = Inr r \<and> \<not> (200 \<le> status_code r \<and> status_code r \<le> 299) \<longrightarrow>
              fst (pandora_search_catalog U post query content_type) =
                Inr (PyDict [(str ''error'',
                               PyStr (str ''Pandora API call failed: '' @ status_message r)),
                             (str ''response_text'', PyStr (text' r))])) \<and>
           (\<forall>r e. post req = Inr r \<and> 200 \<le> status_code r \<and> status_code r \<le> 299 \<and>
                  decoded r = Inl e \<longrightarrow>
              fst (pandora_search_catalog U post query content_type) =
                Inr (PyDict [(str ''error'', PyStr (str ''Pandora API call failed: '' @ message e)),
                             (str ''response_text'', PyStr (text' r))]))"
proof -
  from assms obtain t where t: "map_of CONTENT_TYPE_MAP (upper U content_type) = Some t"
    by (rule valid_label_code)
  show ?thesis
    by (rule exI [of _ "request_for t query"])
       (simp add: calls_valid [OF t] result_valid [OF t] failure_result_def)
qed

theorem api_failure_result_witness:
  \<open>fst (pandora_search_catalog no_case_mapping timed_out (str ''rock'') (str ''ARTIST'')) =
     Inr (PyDict [(str ''error'', PyStr (str ''Pandora API call failed: timed out'')),
                  (str ''response_text'', PyNone)]) \<and>
   fst (pandora_search_catalog no_case_mapping server_error (str ''rock'') (str ''ARTIST'')) =
     Inr (PyDict [(str ''error'', PyStr (str ''Pandora API call failed: Server error 500'')),
                  (str ''response_text'', PyStr (str ''{"message":"server error"}''))])\<close>
proof -
  have v: "upper no_case_mapping (str ''ARTIST'') \<in>
      {str ''ARTIST'', str ''STATION'', str ''ALBUM'', str ''TRACK'', str ''PODCAST''}"
    by (simp add: upper_plain)
  from api_failure_result [OF v, of timed_out "str ''rock''"]
  have "fst (pandora_search_catalog no_case_mapping timed_out (str ''rock'') (str ''ARTIST'')) =
     Inr (PyDict [(str ''error'', PyStr (str ''Pandora API call failed: timed out'')),
                  (str ''response_text'', PyNone)])"
    by (auto simp: timed_out_def) (simp add: str_def)
  moreover from api_failure_result [OF v, of server_error "str ''rock''"]
  have \<open>fst (pandora_search_catalog no_case_mapping server_error (str ''rock'') (str ''ARTIST'')) =
     Inr (PyDict [(str ''error'', PyStr (str ''Pandora API call failed: Server error 500'')),
                  (str ''response_text'', PyStr (str ''{"message":"server error"}''))])\<close>
    by (auto simp: server_error_def) (simp add: str_def)
  ultimately show ?thesis by simp
qed

text \<open>
  C5. With a valid content type, when the call returns a response with a 2xx status whose
  body decodes, the tool returns the decoded value itself.
\<close>

theorem success_returns_decoded:
  assumes "upper U content_type \<in>
             {str ''ARTIST'', str ''STATION'', str ''ALBUM'', str ''TRACK'', str ''PODCAST''}"
    and "snd (pandora_search_catalog U post query content_type) = [req]"
    and "post req = Inr r"
    and "200 \<le> status_code r \<and> status_code r \<le> 299"
    and "decoded r = Inr v"
  shows "fst (pandora_search_catalog U post query content_type) = Inr v"
proof -
  from assms(1) obtain t where t: "map_of CONTENT_TYPE_MAP (upper U content_type) = Some t"
    by (rule valid_label_code)
  with assms(2) have "req = request_for t query"
    by (simp add: calls_valid)
  with assms(3-5) show ?thesis
    by (simp add: result_valid [OF t])
qed

theorem success_returns_decoded_witness:
  "fst (pandora_search_catalog no_case_mapping found_artist (str ''Test'') (str ''ARTIST'')) =
     Inr (PyDict [(str ''data'', PyDict [(str ''search'', PyDict [(str ''items'',
       PyList [PyDict [(str ''id'', PyStr (str ''1'')),
                       (str ''name'', PyStr (str ''Test Artist''))]])])])])"
proof -
  have v: "upper no_case_mapping (str ''ARTIST'') \<in>
      {str ''ARTIST'', str ''STATION'', str ''ALBUM'', str ''TRACK'', str ''PODCAST''}"
    by (simp add: upper_plain)
  have s: "snd (pandora_search_catalog no_case_mapping found_artist (str ''Test'') (str ''ARTIST''))
      = [request_for (str ''AR'') (str ''Test'')]"
    by (rule calls_valid) (simp add: upper_plain artist_code)
  obtain r where r: "found_artist (request_for (str ''AR'') (str ''Test'')) = Inr r"
    and st: "200 \<le> status_code r \<and> status_code r \<le> 299" and d: "decoded r = Inr test_artist"
    by (simp add: found_artist_def)
  from success_returns_decoded [OF v s r st d] show ?thesis
    by (simp add: test_artist_def)
qed

text \<open>
  C9. For every content type, every search term and every behaviour of the network, the
  call returns a value and no exception leaves it. For an invalid content type the value
  is the dictionary of the invalid content type and no call is made. For a valid one the
  tool makes one call, and the value is decided by it: the dictionary of a failed call
  when the network raises, when the status is outside 2xx or when the body does not
  decode, and otherwise the value that the body decoded to. The token provider of the
  source returns its constant and raises nothing.
\<close>

theorem always_returns:
  "\<exists>v. fst (pandora_search_catalog U post query content_type) = Inr v \<and>
     (upper U content_type \<notin>
        {str ''ARTIST'', str ''STATION'', str ''ALBUM'', str ''TRACK'', str ''PODCAST''} \<longrightarrow>
        snd (pandora_search_catalog U post query content_type) = [] \<and>
        v = PyDict [(str ''error'',
              PyStr (str ''Invalid content_type: '' @ content_type @ str ''.''))]) \<and>
     (upper U content_type \<in>
        {str ''ARTIST'', str ''STATION'', str ''ALBUM'', str ''TRACK'', str ''PODCAST''} \<longrightarrow>
        (\<exists>req. snd (pandora_search_catalog U post query content_type) = [req] \<and>
           (case post req of
              Inl e \<Rightarrow>
                v = PyDict
                  [(str ''error'', PyStr (str ''Pandora API call failed: '' @ message e)),
                   (str ''response_text'', PyNone)]
            | Inr r \<Rightarrow>
                if 200 \<le> status_code r \<and> status_code r \<le> 299 then
                  (case decoded r of
                     Inl e \<Rightarrow>
                       v = PyDict
                         [(str ''error'',
                             PyStr (str ''Pandora API call failed: '' @ message e)),
                          (str ''response_text'', PyStr (text' r))]
                   | Inr w \<Rightarrow> v = w)
                else
                  v = PyDict
                    [(str ''error'',
                        PyStr (str ''Pandora API call failed: '' @ status_message r)),
                     (str ''response_text'', PyStr (text' r))])))"
proof (cases "map_of CONTENT_TYPE_MAP (upper U content_type)")
  case None
  then have "upper U content_type \<notin>
      {str ''ARTIST'', str ''STATION'', str ''ALBUM'', str ''TRACK'', str ''PODCAST''}"
    by (auto simp: content_type_map split: if_splits)
  with None show ?thesis by (simp add: search_invalid)
next
  case (Some t)
  then have valid: "upper U content_type \<in>
      {str ''ARTIST'', str ''STATION'', str ''ALBUM'', str ''TRACK'', str ''PODCAST''}"
    by (auto simp: content_type_map split: if_splits)
  show ?thesis
  proof (cases "post (request_for t query)")
    case (Inl e)
    with valid show ?thesis
      by (simp add: calls_valid [OF Some] result_valid [OF Some] failure_result_def)
  next
    case (Inr r)
    with valid show ?thesis
      by (cases "decoded r")
         (simp_all add: calls_valid [OF Some] result_valid [OF Some] failure_result_def)
  qed
qed

theorem always_returns_witness:
  \<open>fst (pandora_search_catalog no_case_mapping timed_out (str ''rock'') (str ''ARTIST'')) =
     Inr (PyDict [(str ''error'', PyStr (str ''Pandora API call failed: timed out'')),
                  (str ''response_text'', PyNone)]) \<and>
   fst (pandora_search_catalog no_case_mapping server_error (str ''rock'') (str ''ARTIST'')) =
     Inr (PyDict [(str ''error'', PyStr (str ''Pandora API call failed: Server error 500'')),
                  (str ''response_text'', PyStr (str ''{"message":"server error"}''))]) \<and>
   fst (pandora_search_catalog no_case_mapping not_json (str ''rock'') (str ''ARTIST'')) =
     Inr (PyDict [(str ''error'', PyStr (str ''Pandora API call failed: Expecting value'')),
                  (str ''response_text'', PyStr (str ''<html>down</html>''))]) \<and>
   fst (pandora_search_catalog no_case_mapping found_artist (str ''rock'') (str ''ARTIST'')) =
     Inr test_artist \<and>
   fst (pandora_search_catalog no_case_mapping timed_out (str ''rock'') (str ''artist '')) =
     Inr (PyDict [(str ''error'', PyStr (str ''Invalid content_type: artist .''))])\<close>
proof -
  have v: "upper no_case_mapping (str ''ARTIST'') \<in>
      {str ''ARTIST'', str ''STATION'', str ''ALBUM'', str ''TRACK'', str ''PODCAST''}"
    by (simp add: upper_plain)
  have i: "upper no_case_mapping (str ''artist '') \<notin>
      {str ''ARTIST'', str ''STATION'', str ''ALBUM'', str ''TRACK'', str ''PODCAST''}"
    by (simp add: upper_def upper_char_def str_def)
  have p: "str ''Pandora API call failed: '' @ str ''timed out'' =
        str ''Pandora API call failed: timed out''"
      "str ''Pandora API call failed: '' @ str ''Server error 500'' =
        str ''Pandora API call failed: Server error 500''"
      "str ''Pandora API call failed: '' @ str ''Expecting value'' =
        str ''Pandora API call failed: Expecting value''"
      "str ''Invalid content_type: '' @ str ''artist '' @ str ''.'' =
        str ''Invalid content_type: artist .''"
    by (simp_all add: str_def)
  from always_returns [of no_case_mapping timed_out "str ''rock''" "str ''ARTIST''"] v
  have 1: "fst (pandora_search_catalog no_case_mapping timed_out (str ''rock'') (str ''ARTIST'')) =
     Inr (PyDict [(str ''error'', PyStr (str ''Pandora API call failed: timed out'')),
                  (str ''response_text'', PyNone)])"
    by (auto simp: timed_out_def p)
  from always_returns [of no_case_mapping server_error "str ''rock''" "str ''ARTIST''"] v
  have 2: \<open>fst (pandora_search_catalog no_case_mapping server_error (str ''rock'') (str ''ARTIST'')) =
     Inr (PyDict [(str ''error'', PyStr (str ''Pandora API call failed: Server error 500'')),
                  (str ''response_text'', PyStr (str ''{"message":"server error"}''))])\<close>
    by (auto simp: server_error_def p)
  from always_returns [of no_case_mapping not_json "str ''rock''" "str ''ARTIST''"] v
  have 3: "fst (pandora_search_catalog no_case_mapping not_json (str ''rock'') (str ''ARTIST'')) =
     Inr (PyDict [(str ''error'', PyStr (str ''Pandora API call failed: Expecting value'')),
                  (str ''response_text'', PyStr (str ''<html>down</html>''))])"
    by (auto simp: not_json_def p)
  from always_returns [of no_case_mapping found_artist "str ''rock''" "str ''ARTIST''"] v
  have 4: "fst (pandora_search_catalog no_case_mapping found_artist (str ''rock'') (str ''ARTIST'')) =
     Inr test_artist"
    by (auto simp: found_artist_def)
  from always_returns [of no_case_mapping timed_out "str ''rock''" "str ''artist ''"] i
  have 5: "fst (pandora_search_catalog no_case_mapping timed_out (str ''rock'') (str ''artist '')) =
     Inr (PyDict [(str ''error'', PyStr (str ''Invalid content_type: artist .''))])"
    by (auto simp: p)
  from 1 2 3 4 5 show ?thesis by simp
qed

text \<open>
  C10. The two error results differ in their keys. The result for an invalid content type
  has the one key error. The result of a failed call has the two keys error and
  response_text, whatever the value of the second.
\<close>

theorem error_results_keys:
  "(upper U content_type \<notin>
      {str ''ARTIST'', str ''STATION'', str ''ALBUM'', str ''TRACK'', str ''PODCAST''} \<longrightarrow>
      (\<exists>d. fst (pandora_search_catalog U post query content_type) = Inr (PyDict d) \<and>
           map fst d = [str ''error''])) \<and>
   (\<forall>req. snd (pandora_search_catalog U post query content_type) = [req] \<and>
          call_fails post req \<longrightarrow>
      (\<exists>d. fst (pandora_search_catalog U post query content_type) = Inr (PyDict d) \<and>
           map fst d = [str ''error'', str ''response_text'']))"
proof (intro conjI impI allI)
  assume "upper U content_type \<notin>
      {str ''ARTIST'', str ''STATION'', str ''ALBUM'', str ''TRACK'', str ''PODCAST''}"
  then have "map_of CONTENT_TYPE_MAP (upper U content_type) = None"
    by (simp add: content_type_map)
  then show "\<exists>d. fst (pandora_search_catalog U post query content_type) = Inr (PyDict d) \<and>
           map fst d = [str ''error'']"
    by (simp add: search_invalid)
next
  fix req
  assume a: "snd (pandora_search_catalog U post query content_type) = [req] \<and> call_fails post req"
  then obtain t where t: "map_of CONTENT_TYPE_MAP (upper U content_type) = Some t"
    by (cases "map_of CONTENT_TYPE_MAP (upper U content_type)") (auto simp: search_invalid)
  with a have "req = request_for t query"
    by (simp add: calls_valid)
  with a show "\<exists>d. fst (pandora_search_catalog U post query content_type) = Inr (PyDict d) \<and>
           map fst d = [str ''error'', str ''response_text'']"
    by (auto simp: result_valid [OF t] call_fails_def failure_result_def isl_def
             split: sum.splits)
qed

theorem error_results_keys_witness:
  "(\<exists>d. fst (pandora_search_catalog no_case_mapping timed_out (str ''rock'') (str ''PLAYLIST''))
          = Inr (PyDict d) \<and> map fst d = [str ''error'']) \<and>
   (\<exists>d. fst (pandora_search_catalog no_case_mapping timed_out (str ''rock'') (str ''ARTIST''))
          = Inr (PyDict d) \<and> map fst d = [str ''error'', str ''response_text''])"
proof -
  have a: "upper no_case_mapping (str ''PLAYLIST'') \<notin>
      {str ''ARTIST'', str ''STATION'', str ''ALBUM'', str ''TRACK'', str ''PODCAST''}"
    by (simp add: upper_def upper_char_def str_def)
  have s: "snd (pandora_search_catalog no_case_mapping timed_out (str ''rock'') (str ''ARTIST''))
      = [request_for (str ''AR'') (str ''rock'')]"
    by (rule calls_valid) (simp add: upper_plain artist_code)
  have f: "call_fails timed_out (request_for (str ''AR'') (str ''rock''))"
    by (simp add: call_fails_def timed_out_def)
  from error_results_keys [of no_case_mapping "str ''PLAYLIST''" timed_out "str ''rock''"] a
    error_results_keys [of no_case_mapping "str ''ARTIST''" timed_out "str ''rock''"] s f
  show ?thesis by blast
qed

lemma set_strip: "set (strip s) \<subseteq> set s"
  by (auto simp: strip_def lstrip_def rstrip_def dest!: set_dropWhileD)

lemma no_newline_flattened: "10 \<notin> set (strip (replace 10 32 s))"
proof -
  have "10 \<notin> set (replace 10 32 s)" by (auto simp: replace_def)
  with set_strip [of "replace 10 32 s"] show ?thesis by blast
qed

lemma flat_document_ends:
  "flat_document t q \<noteq> []" "hd (flat_document t q) = 123" "last (flat_document t q) = 125"
  by (simp_all add: flat_document_eq str_def)

lemma sent_request:
  assumes "req \<in> set (snd (pandora_search_catalog U post query content_type))"
  obtains t where "map_of CONTENT_TYPE_MAP (upper U content_type) = Some t"
    and "req = request_for t query"
proof (cases "map_of CONTENT_TYPE_MAP (upper U content_type)")
  case None
  with assms show ?thesis by (simp add: search_invalid)
next
  case (Some t)
  with assms that show ?thesis by (simp add: calls_valid)
qed

lemma flattened_is_flat_document:
  assumes "map_of CONTENT_TYPE_MAP k = Some t"
  shows "graphql_query t q = Inr (join [10] (document_lines t q))"
    and "strip (replace 10 32 (join [10] (document_lines t q))) = flat_document t (replace 10 32 q)"
  using type_code_plain(2) [OF assms] by (simp_all add: graphql_query_eq flatten_document)

text \<open>
  C6. The document in the envelope of every request that is sent is the document that the
  f-string built with every line break replaced by one space and the outer white space
  stripped: its lines joined by single spaces. It contains no line break, and it neither
  begins nor ends with a white space character.
\<close>

theorem flattened_document_shape:
  assumes "req \<in> set (snd (pandora_search_catalog U post query content_type))"
  shows "\<exists>d t gq. document_of req = Some d \<and>
           map_of CONTENT_TYPE_MAP (upper U content_type) = Some t \<and>
           graphql_query t query = Inr gq \<and>
           d = strip (replace 10 32 gq) \<and>
           d = flat_document t (replace 10 32 query) \<and>
           10 \<notin> set d \<and> d \<noteq> [] \<and> \<not> isspace (hd d) \<and> \<not> isspace (last d)"
proof -
  from assms obtain t where t: "map_of CONTENT_TYPE_MAP (upper U content_type) = Some t"
    and req: "req = request_for t query"
    by (rule sent_request)
  let ?gq = "join [10] (document_lines t query)"
  let ?d = "flat_document t (replace 10 32 query)"
  have d: "strip (replace 10 32 ?gq) = ?d"
    by (rule flattened_is_flat_document(2) [OF t])
  have "10 \<notin> set ?d"
    using no_newline_flattened [of ?gq] by (simp add: d)
  moreover have "\<not> isspace (hd ?d)" "\<not> isspace (last ?d)"
    by (simp_all add: flat_document_ends isspace_def)
  ultimately show ?thesis
    using t d by (simp add: req document_of_request_for graphql_query_eq flat_document_ends(1))
qed

theorem flattened_document_shape_witness:
  "request_for (str ''PC'') (str ''space podcasts'') \<in>
     set (snd (pandora_search_catalog no_case_mapping timed_out (str ''space podcasts'')
       (str ''PODCAST''))) \<and>
   (\<exists>d. document_of (request_for (str ''PC'') (str ''space podcasts'')) = Some d \<and>
        10 \<notin> set d \<and> d \<noteq> [] \<and> \<not> isspace (hd d) \<and> \<not> isspace (last d))"
proof -
  have sent: "request_for (str ''PC'') (str ''space podcasts'') \<in>
      set (snd (pandora_search_catalog no_case_mapping timed_out (str ''space podcasts'')
        (str ''PODCAST'')))"
    by (subst calls_valid [of _ _ "str ''PC''"])
       (simp_all add: upper_def upper_char_def content_type_map str_def)
  from flattened_document_shape [OF sent] sent show ?thesis by blast
qed

text \<open>
  C7. The body of every request that is sent is the dictionary with the three entries
  operationName, None; variables, the empty dictionary; and query, the flattened query
  document.
\<close>

theorem envelope_shape:
  assumes "req \<in> set (snd (pandora_search_catalog U post query content_type))"
  shows "\<exists>t gq. map_of CONTENT_TYPE_MAP (upper U content_type) = Some t \<and>
           graphql_query t query = Inr gq \<and>
           json req = PyDict [(str ''operationName'', PyNone),
                              (str ''variables'', PyDict []),
                              (str ''query'', PyStr (strip (replace 10 32 gq)))]"
proof -
  from assms obtain t where t: "map_of CONTENT_TYPE_MAP (upper U content_type) = Some t"
    and req: "req = request_for t query"
    by (rule sent_request)
  show ?thesis
    using t flattened_is_flat_document [OF t, of query]
    by (simp add: req request_for_def)
qed

theorem envelope_shape_witness:
  "request_for (str ''PC'') (str ''space podcasts'') \<in>
     set (snd (pandora_search_catalog no_case_mapping timed_out (str ''space podcasts'')
       (str ''PODCAST''))) \<and>
   (\<exists>d. json (request_for (str ''PC'') (str ''space podcasts'')) =
          PyDict [(str ''operationName'', PyNone),
                  (str ''variables'', PyDict []),
                  (str ''query'', PyStr d)])"
proof -
  have sent: "request_for (str ''PC'') (str ''space podcasts'') \<in>
      set (snd (pandora_search_catalog no_case_mapping timed_out (str ''space podcasts'')
        (str ''PODCAST'')))"
    by (subst calls_valid [of _ _ "str ''PC''"])
       (simp_all add: upper_def upper_char_def content_type_map str_def)
  from envelope_shape [OF sent] sent show ?thesis by blast
qed

lemma replacement_fields_append:
  "replacement_fields (ps @ qs) = replacement_fields ps @ replacement_fields qs"
  by (induction ps rule: replacement_fields.induct) simp_all

lemma fstring_fields_append:
  "fstring_fields a = Some fa \<Longrightarrow>
   fstring_fields (a @ b) = map_option ((@) fa) (fstring_fields b)"
  by (cases "fparse Plain b")
     (auto simp: fstring_fields_def fparse_append_Some fparse_append_None
        replacement_fields_append)

lemma fstring_fields_newline: "fstring_fields (CHR 0x0A # b) = fstring_fields b"
  by (cases "fparse Plain b") (auto simp: fstring_fields_def)

lemma fstring_fields_join:
  "\<forall>l\<in>set ls. fstring_fields l \<noteq> None \<Longrightarrow>
   fstring_fields (join [CHR 0x0A] ls) = Some (concat (map (\<lambda>l. the (fstring_fields l)) ls))"
proof (induction "[CHR 0x0A]" ls rule: join.induct)
  case 1
  then show ?case by (simp add: fstring_fields_def)
next
  case (2 x)
  then show ?case by auto
next
  case (3 x y ys)
  from "3.prems" obtain fx where x: "fstring_fields x = Some fx" by auto
  from "3.prems" have "\<forall>l\<in>set (y # ys). fstring_fields l \<noteq> None" by simp
  from "3.hyps" [OF this] show ?case
    by (simp add: fstring_fields_append [OF x] x fstring_fields_newline)
qed

lemma template_fields:
  "fstring_fields graphql_query_template = Some [''pandora_type_id'', ''query'']"
  unfolding graphql_query_template_def
  by (subst fstring_fields_join) (simp_all add: fstring_fields_def)

lemma podcast_request:
  "snd (pandora_search_catalog U post query (str ''PODCAST'')) = [request_for (str ''PC'') query]"
  by (rule calls_valid) (simp add: upper_def upper_char_def content_type_map str_def)

lemma search_line_podcasts:
  \<open>search_line (str ''PC'') (str ''space podcasts'') =
     str ''            search(types: [PC], query: "space podcasts", pagination: {limit: 20}) {''\<close>
  by (simp add: search_line_def str_def)

text \<open>
  C8. The query document is the fixed text of the template with the type code and the
  search term put in at the two replacement fields of the f-string, the only ones it has;
  every other character is constant. A search for space podcasts under PODCAST sends the
  document with the code PC and the text space podcasts as the query argument.
\<close>

theorem query_document_template:
  \<open>(\<forall>t q. graphql_query t q =
      Inr (join [10]
        ([str '''',
          str ''        {'',
          str ''            search(types: ['' @ t @ str ''], query: "'' @ q @
            str ''", pagination: {limit: 20}) {''] @
         selection_lines @
         [str ''        }'', str ''    '']))) \<and>
   fstring_fields graphql_query_template = Some [''pandora_type_id'', ''query''] \<and>
   snd (pandora_search_catalog U post (str ''space podcasts'') (str ''PODCAST'')) =
     [request_for (str ''PC'') (str ''space podcasts'')] \<and>
   document_of (request_for (str ''PC'') (str ''space podcasts'')) =
     Some (join [32]
       ([str ''{'',
         str ''            search(types: [PC], query: "space podcasts", pagination: {limit: 20}) {''] @
        selection_lines @
        [str ''        }'']))\<close>
proof (intro conjI allI)
  fix t q
  show \<open>graphql_query t q =
      Inr (join [10]
        ([str '''',
          str ''        {'',
          str ''            search(types: ['' @ t @ str ''], query: "'' @ q @
            str ''", pagination: {limit: 20}) {''] @
         selection_lines @
         [str ''        }'', str ''    '']))\<close>
    by (simp add: graphql_query_eq document_lines_def search_line_def)
next
  show "fstring_fields graphql_query_template = Some [''pandora_type_id'', ''query'']"
    by (rule template_fields)
next
  show "snd (pandora_search_catalog U post (str ''space podcasts'') (str ''PODCAST'')) =
     [request_for (str ''PC'') (str ''space podcasts'')]"
    by (rule podcast_request)
next
  have "replace 10 32 (str ''space podcasts'') = str ''space podcasts''"
    by (simp add: replace_def str_def)
  then show \<open>document_of (request_for (str ''PC'') (str ''space podcasts'')) =
     Some (join [32]
       ([str ''{'',
         str ''            search(types: [PC], query: "space podcasts", pagination: {limit: 20}) {''] @
        selection_lines @
        [str ''        }'']))\<close>
    by (simp add: document_of_request_for flat_document_def search_line_podcasts)
qed

theorem query_document_template_witness:
  \<open>graphql_query (str ''PC'') (str ''space podcasts'') =
      Inr (join [10]
        ([str '''',
          str ''        {'',
          str ''            search(types: [PC], query: "space podcasts", pagination: {limit: 20}) {''] @
         selection_lines @
         [str ''        }'', str ''    ''])) \<and>
   snd (pandora_search_catalog no_case_mapping timed_out (str ''space podcasts'') (str ''PODCAST'')) =
     [request_for (str ''PC'') (str ''space podcasts'')]\<close>
  using query_document_template [of no_case_mapping timed_out]
  by (simp add: str_def)

lemma scan_Outside_plain:
  assumes "\<forall>c\<in>set xs. S c \<and> c \<noteq> 34 \<and> c \<noteq> 35"
  shows "scan S Outside (xs @ ys) =
     (case scan S Outside ys of None \<Rightarrow> None | Some ls \<Rightarrow> Some (map Source xs @ ls))"
  using assms by (induction xs) (auto split: option.splits)

lemma scan_Inside_plain:
  assumes "\<forall>c\<in>set q. S c \<and> c \<noteq> 34 \<and> c \<noteq> 92 \<and> c \<noteq> 10 \<and> c \<noteq> 13"
  shows "scan S Inside (q @ ys) = scan S Inside ys"
  using assms by (induction q) auto

lemma scan_Inside_unterminated:
  "34 \<notin> set xs \<Longrightarrow> 92 \<notin> set xs \<Longrightarrow> scan S Inside xs = None"
  by (induction xs) auto

lemma scan_string:
  assumes "\<forall>c\<in>set q. S c \<and> c \<noteq> 34 \<and> c \<noteq> 92 \<and> c \<noteq> 10 \<and> c \<noteq> 13"
    and "S 34" and "take 1 ys \<noteq> [34]"
  shows "scan S Outside (34 # q @ 34 # ys) = map_option ((#) StringValue) (scan S Outside ys)"
proof (cases q)
  case Nil
  with assms(2,3) show ?thesis by (cases ys) auto
next
  case (Cons d q')
  with assms(1) have d: "d \<noteq> 34" by simp
  have "scan S Inside (q @ 34 # ys) = map_option ((#) StringValue) (scan S Outside ys)"
    using assms(2) by (simp add: scan_Inside_plain [OF assms(1)])
  with assms(2) d Cons show ?thesis by auto
qed

lemma plain_ascii_join:
  assumes "\<forall>l\<in>set ls. \<forall>c\<in>set l. plain_ascii c" and "\<forall>c\<in>set sep. plain_ascii c"
  shows "\<forall>c\<in>set (join sep ls). plain_ascii c"
  using assms by (induction sep ls rule: join.induct) auto

lemma selection_lines_plain: "\<forall>l\<in>set selection_lines. \<forall>c\<in>set l. plain_ascii c"
  by (simp add: selection_lines_def str_def plain_ascii_def)

lemma document_rest_plain:
  "\<forall>c\<in>set (str '' pagination: {limit: 20}) {'' @
      join [32] ([] # selection_lines) @ 32 # str ''        }''). plain_ascii c"
proof -
  have "\<forall>c\<in>set (join [32] ([] # selection_lines)). plain_ascii c"
    by (rule plain_ascii_join) (use selection_lines_plain in \<open>auto simp: plain_ascii_def\<close>)
  then show ?thesis by (auto simp: str_def plain_ascii_def)
qed

lemma plain_ascii_source:
  assumes "\<forall>c. 32 \<le> c \<and> c \<le> 126 \<longrightarrow> S c" and "\<forall>c\<in>set xs. plain_ascii c"
  shows "\<forall>c\<in>set xs. S c \<and> c \<noteq> 34 \<and> c \<noteq> 35"
    and "34 \<notin> set xs" and "92 \<notin> set xs"
  using assms unfolding plain_ascii_def by blast+

lemma flat_document_split:
  \<open>flat_document t q =
      (str ''{             search(types: ['' @ t @ str ''], query: '') @ 34 # q @ 34 # 44 #
      (str '' pagination: {limit: 20}) {'' @
       join [32] ([] # selection_lines) @ 32 # str ''        }'')\<close>
  by (simp add: flat_document_eq search_line_def str_def)

lemma document_front_plain:
  assumes "\<forall>c\<in>set t. plain_ascii c"
  shows "\<forall>c\<in>set (str ''{             search(types: ['' @ t @ str ''], query: ''). plain_ascii c"
proof -
  have "\<forall>c\<in>set (str ''{             search(types: [''). plain_ascii c"
    and "\<forall>c\<in>set (str ''], query: ''). plain_ascii c"
    by (simp_all add: str_def plain_ascii_def)
  with assms show ?thesis by (simp add: ball_Un)
qed

lemma document_back_plain:
  "\<forall>c\<in>set (44 # str '' pagination: {limit: 20}) {'' @
      join [32] ([] # selection_lines) @ 32 # str ''        }''). plain_ascii c"
proof -
  have "plain_ascii 44" by (simp add: plain_ascii_def)
  with document_rest_plain show ?thesis by simp
qed

lemma scan_front:
  assumes "\<forall>c. 32 \<le> c \<and> c \<le> 126 \<longrightarrow> S c" and "\<forall>c\<in>set t. plain_ascii c"
  shows "scan S Outside (flat_document t q) =
     (case scan S Outside (34 # q @ 34 # 44 # str '' pagination: {limit: 20}) {'' @
              join [32] ([] # selection_lines) @ 32 # str ''        }'') of
        None \<Rightarrow> None
      | Some ls \<Rightarrow>
          Some (map Source (str ''{             search(types: ['' @ t @ str ''], query: '') @ ls))"
  unfolding flat_document_split
  by (rule scan_Outside_plain)
     (rule plain_ascii_source(1) [OF assms(1) document_front_plain [OF assms(2)]])

lemma scan_back:
  assumes "\<forall>c. 32 \<le> c \<and> c \<le> 126 \<longrightarrow> S c"
  shows "scan S Outside (44 # str '' pagination: {limit: 20}) {'' @
              join [32] ([] # selection_lines) @ 32 # str ''        }'') =
     Some (map Source (44 # str '' pagination: {limit: 20}) {'' @
              join [32] ([] # selection_lines) @ 32 # str ''        }''))"
  using scan_Outside_plain [OF plain_ascii_source(1) [OF assms document_back_plain], of "[]"]
  by (simp del: scan.simps add: scan.simps(1))

lemma scan_flat_document:
  assumes "\<forall>c. 32 \<le> c \<and> c \<le> 126 \<longrightarrow> S c" and "\<forall>c\<in>set t. plain_ascii c"
    and "\<forall>c\<in>set q. S c \<and> c \<noteq> 34 \<and> c \<noteq> 92 \<and> c \<noteq> 10 \<and> c \<noteq> 13"
  shows "scan S Outside (flat_document t q) =
     Some (map Source (str ''{             search(types: ['' @ t @ str ''], query: '') @
           StringValue #
           map Source (44 # str '' pagination: {limit: 20}) {'' @
              join [32] ([] # selection_lines) @ 32 # str ''        }''))"
proof -
  let ?rest = "44 # str '' pagination: {limit: 20}) {'' @
              join [32] ([] # selection_lines) @ 32 # str ''        }''"
  have "S 34" using assms(1) by simp
  moreover have "take 1 ?rest \<noteq> [34]" by simp
  ultimately have "scan S Outside (34 # q @ 34 # ?rest) =
      map_option ((#) StringValue) (scan S Outside ?rest)"
    by (rule scan_string [OF assms(3)])
  then show ?thesis
    unfolding scan_front [OF assms(1,2)] scan_back [OF assms(1)]
    by (simp del: scan.simps)
qed

lemma replace_plain:
  assumes "S 32" and "\<forall>c\<in>set q. S c \<and> c \<noteq> 34 \<and> c \<noteq> 92 \<and> c \<noteq> 13"
  shows "\<forall>c\<in>set (replace 10 32 q). S c \<and> c \<noteq> 34 \<and> c \<noteq> 92 \<and> c \<noteq> 10 \<and> c \<noteq> 13"
proof
  fix c
  assume "c \<in> set (replace 10 32 q)"
  then obtain x where x: "x \<in> set q" and c: "c = (if x = 10 then 32 else x)"
    unfolding replace_def by auto
  show "S c \<and> c \<noteq> 34 \<and> c \<noteq> 92 \<and> c \<noteq> 10 \<and> c \<noteq> 13"
  proof (cases "x = 10")
    case True
    with c assms(1) show ?thesis by simp
  next
    case False
    from assms(2) x have "S x \<and> x \<noteq> 34 \<and> x \<noteq> 92 \<and> x \<noteq> 13" by blast
    with False c show ?thesis by simp
  qed
qed


lemma artist_request:
  "snd (pandora_search_catalog no_case_mapping post q (str ''ARTIST'')) =
     [request_for (str ''AR'') q]"
  by (rule calls_valid) (simp add: upper_plain artist_code)

lemma source_character_ascii: "\<forall>c. 32 \<le> c \<and> c \<le> 126 \<longrightarrow> source_character c"
  by (simp add: source_character_def)

lemma artist_code_plain: "\<forall>c\<in>set (str ''AR''). plain_ascii c"
  by (rule type_code_plain(3) [OF artist_code])

text \<open>
  A carriage return in the search term stays in the document, where it ends the line
  inside the string value: the lexer rejects the document. So the carriage return has to be
  excluded along with the double quote and the backslash.
\<close>

lemma carriage_return_breaks_document:
  "map (document_structure source_character)
     (snd (pandora_search_catalog no_case_mapping timed_out [97, 13, 98] (str ''ARTIST''))) =
   [None]"
proof -
  have "replace 10 32 [97, 13, 98] = [97, 13, 98]"
    by (simp add: replace_def)
  moreover have "scan source_character Outside (34 # [97, 13, 98] @ 34 # 44 #
      str '' pagination: {limit: 20}) {'' @
      join [32] ([] # selection_lines) @ 32 # str ''        }'') = None"
    by (simp add: source_character_def)
  ultimately show ?thesis
    by (simp add: artist_request document_structure_def document_of_request_for
          scan_front [OF source_character_ascii artist_code_plain] del: scan.simps)
qed

text \<open>
  C4, as the claim states it, fails: the search term is put between the two double quotes
  of the template as it is, so a double quote in it ends the string value early and what
  follows is read as part of the document. The search term \<^verbatim>\<open>a"b\<close> gives a document with
  another structure than the search term \<^verbatim>\<open>a\<close>: after the string value \<^verbatim>\<open>"a"\<close> come the
  name \<^verbatim>\<open>b\<close> and a string that nothing closes.
\<close>

theorem query_injection_counterexample:
  \<open>map (document_structure source_character)
      (snd (pandora_search_catalog no_case_mapping timed_out (str ''a"b'') (str ''ARTIST''))) \<noteq>
   map (document_structure source_character)
      (snd (pandora_search_catalog no_case_mapping timed_out (str ''a'') (str ''ARTIST'')))\<close>
proof -
  let ?rest = "44 # str '' pagination: {limit: 20}) {'' @
      join [32] ([] # selection_lines) @ 32 # str ''        }''"
  have q: \<open>replace 10 32 (str ''a"b'') = [97] @ 34 # 98 # []\<close> "replace 10 32 (str ''a'') = [97]"
    by (simp_all add: replace_def str_def)
  have plain: "\<forall>c\<in>set [97]. source_character c \<and> c \<noteq> 34 \<and> c \<noteq> 92 \<and> c \<noteq> 10 \<and> c \<noteq> 13"
    by (simp add: source_character_def)
  have "scan source_character Inside ?rest = None"
    using plain_ascii_source(2,3) [OF source_character_ascii document_back_plain]
    by (rule scan_Inside_unterminated)
  then have open_string: "scan source_character Outside (34 # ?rest) = None"
    by (simp add: source_character_def)
  have "scan source_character Outside (34 # [97] @ 34 # (98 # 34 # ?rest)) =
      map_option ((#) StringValue) (scan source_character Outside (98 # 34 # ?rest))"
    by (rule scan_string [OF plain]) (simp_all add: source_character_def)
  also have "scan source_character Outside (98 # 34 # ?rest) = None"
  proof -
    have "scan source_character Outside (98 # cs) =
        map_option ((#) (Source 98)) (scan source_character Outside cs)" for cs
      by (simp add: source_character_def)
    with open_string show ?thesis by (simp del: scan.simps)
  qed
  finally have injected: "scan source_character Outside (34 # [97] @ 34 # 98 # 34 # ?rest) = None"
    by simp
  have "scan source_character Outside (flat_document (str ''AR'') ([97] @ 34 # 98 # [])) = None"
    using injected
    by (simp add: scan_front [OF source_character_ascii artist_code_plain] del: scan.simps)
  moreover have "scan source_character Outside (flat_document (str ''AR'') [97]) \<noteq> None"
    by (simp add: scan_flat_document [OF source_character_ascii artist_code_plain plain])
  ultimately show ?thesis
    by (auto simp: artist_request document_structure_def document_of_request_for q)
qed

text \<open>
  C4, amended. For search terms made of source characters of the grammar, none of them a
  double quote, a backslash or a carriage return, the structure of the document that is
  sent does not depend on the search term, and the document is well formed for the lexer. This holds for every
  set of source characters that has the printable ASCII characters in it.
\<close>

theorem plain_query_keeps_structure:
  assumes "\<forall>c. 32 \<le> c \<and> c \<le> 126 \<longrightarrow> S c"
    and "\<forall>c\<in>set query. S c \<and> c \<noteq> 34 \<and> c \<noteq> 92 \<and> c \<noteq> 13"
    and "\<forall>c\<in>set query'. S c \<and> c \<noteq> 34 \<and> c \<noteq> 92 \<and> c \<noteq> 13"
  shows "map (document_structure S) (snd (pandora_search_catalog U post query content_type)) =
         map (document_structure S) (snd (pandora_search_catalog U post query' content_type)) \<and>
         None \<notin> set (map (document_structure S)
           (snd (pandora_search_catalog U post query content_type)))"
proof (cases "map_of CONTENT_TYPE_MAP (upper U content_type)")
  case None
  then show ?thesis by (simp add: search_invalid)
next
  case (Some t)
  have space: "S 32" using assms(1) by simp
  note lexed = scan_flat_document [OF assms(1) type_code_plain(3) [OF Some]]
  have "scan S Outside (flat_document t (replace 10 32 query)) =
        scan S Outside (flat_document t (replace 10 32 query'))"
    and "scan S Outside (flat_document t (replace 10 32 query)) \<noteq> None"
    by (simp_all only: lexed [OF replace_plain [OF space assms(2)]]
          lexed [OF replace_plain [OF space assms(3)]] option.distinct not_False_eq_True)
  then show ?thesis
    by (auto simp: calls_valid [OF Some] document_structure_def document_of_request_for)
qed

theorem plain_query_keeps_structure_witness:
  "map (document_structure source_character)
     (snd (pandora_search_catalog no_case_mapping timed_out (str ''rock'') (str ''ARTIST''))) =
   map (document_structure source_character)
     (snd (pandora_search_catalog no_case_mapping timed_out (str ''jazz'') (str ''ARTIST''))) \<and>
   None \<notin> set (map (document_structure source_character)
     (snd (pandora_search_catalog no_case_mapping timed_out (str ''rock'') (str ''ARTIST''))))"
proof -
  have a: "\<forall>c\<in>set (str ''rock''). source_character c \<and> c \<noteq> 34 \<and> c \<noteq> 92 \<and> c \<noteq> 13"
    and b: "\<forall>c\<in>set (str ''jazz''). source_character c \<and> c \<noteq> 34 \<and> c \<noteq> 92 \<and> c \<noteq> 13"
    by (simp_all add: str_def source_character_def)
  from plain_query_keeps_structure [OF source_character_ascii a b,
      of no_case_mapping timed_out "str ''ARTIST''"]
  show ?thesis .
qed

end
